theory Spec2Isabelle
  imports
    Main
    "HOL-Library.Word"
    "HOL-Library.Sublist"
    "HOL-Library.Char_ord"
    "HOL-Library.List_Lexorder"
    "HOL-Library.Multiset"
begin

unbundle bit_operations_syntax

section \<open>Data model of \<^verbatim>\<open>src/services/database_migration.py\<close>\<close>

text \<open>
  Python's \<^verbatim>\<open>str\<close> is modelled by \<^typ>\<open>string\<close>: each \<^typ>\<open>char\<close> stands for the code
  point of the same number, so the model covers the texts over U+0000 .. U+00FF. The
  order on \<^typ>\<open>string\<close> is the lexicographic order by code point, which is how Python
  compares two \<^verbatim>\<open>str\<close> values.
\<close>

datatype MigrationStatus = PENDING | RUNNING | COMPLETED | FAILED | ROLLED_BACK

type_synonym datetime = nat

record Migration =
  version :: string
  name :: string
  description :: string
  up_sql :: string
  down_sql :: string
  checksum :: string
  applied_at :: "datetime option"
  status :: MigrationStatus

text \<open>
  The lines the service prints. The format strings hold the signs U+2713 and U+2717, so a
  line is kept as a constructor with the values that are interpolated into it:
  \<^item> \<open>DryRunApply v n\<close>: \<^verbatim>\<open>[DRY RUN] Would apply migration {v}: {n}\<close>
  \<^item> \<open>DryRunRollback v n\<close>: \<^verbatim>\<open>[DRY RUN] Would rollback migration {v}: {n}\<close>
  \<^item> \<open>SqlLine s\<close>: \<^verbatim>\<open>SQL: {s}...\<close>
  \<^item> \<open>AppliedLine v n\<close>, \<open>RolledBackLine v n\<close>: the two success lines, with the
    version and the name
  \<^item> \<open>ApplyFailedLine v e\<close>, \<open>RollbackFailedLine v e\<close>: the two lines of the
    \<^verbatim>\<open>except\<close> branches, with the version and \<^verbatim>\<open>str(e)\<close>, and without the name
\<close>

datatype line =
    DryRunApply string string
  | DryRunRollback string string
  | SqlLine string
  | AppliedLine string string
  | ApplyFailedLine string string
  | RolledBackLine string string
  | RollbackFailedLine string string

text \<open>
  The exceptions of the model, all of them instances of \<^verbatim>\<open>Exception\<close>: what \<^verbatim>\<open>print\<close>
  raises, with its message, and what opening or reading a file raises, with the file name.
\<close>

datatype exn = Exception string | OSError string

fun str_exn :: "exn \<Rightarrow> string" where
  "str_exn (Exception msg) = msg"
| "str_exn (OSError msg) = msg"

text \<open>
  What a call reads and writes outside the migration objects: the clock that
  \<^verbatim>\<open>datetime.now()\<close> reads, and standard output. The service holds no database
  connection and issues no database call (both are \<^verbatim>\<open>TODO\<close> comments in the source),
  so the world has no database component.

  \<^verbatim>\<open>print\<close> raises when standard output does not take the line: the stream is closed,
  or its encoding lacks a character of the line (U+2713 and U+2717 on an ASCII stream; a
  lone surrogate in a name that \<^verbatim>\<open>os.listdir\<close> returned, on any stream). \<open>stdout_error w l\<close>
  is the exception that printing the line \<open>l\<close> raises, or \<open>None\<close> when the line is written.
\<close>

record world =
  clock :: datetime
  stdout :: "line list"
  stdout_error :: "line \<Rightarrow> exn option"

definition print :: "line \<Rightarrow> world \<Rightarrow> exn + world" where
  "print l w =
     (case stdout_error w l of
        None \<Rightarrow> Inr (w\<lparr>stdout := stdout w @ [l]\<rparr>)
      | Some e \<Rightarrow> Inl e)"

section \<open>\<^verbatim>\<open>calculate_checksum\<close>: SHA-256 of the UTF-8 encoding, in hexadecimal\<close>

text \<open>
  \<^verbatim>\<open>hashlib.sha256(content.encode('utf-8')).hexdigest()\<close>. The hash function is
  written out after FIPS 180-4: padding to a multiple of 64 bytes with the bit length in
  the last eight, sixteen big-endian words per block, a schedule of 64 words, 64 rounds on
  eight working variables, and the sum with the previous hash value.
\<close>

type_synonym u32 = "32 word"
type_synonym byte = "8 word"

definition rotr :: "nat \<Rightarrow> u32 \<Rightarrow> u32" where
  "rotr n x = drop_bit n x OR push_bit (32 - n) x"

definition ch :: "u32 \<Rightarrow> u32 \<Rightarrow> u32 \<Rightarrow> u32" where
  "ch x y z = (x AND y) XOR (NOT x AND z)"

definition maj :: "u32 \<Rightarrow> u32 \<Rightarrow> u32 \<Rightarrow> u32" where
  "maj x y z = (x AND y) XOR (x AND z) XOR (y AND z)"

definition bsig0 :: "u32 \<Rightarrow> u32" where
  "bsig0 x = rotr 2 x XOR rotr 13 x XOR rotr 22 x"

definition bsig1 :: "u32 \<Rightarrow> u32" where
  "bsig1 x = rotr 6 x XOR rotr 11 x XOR rotr 25 x"

definition ssig0 :: "u32 \<Rightarrow> u32" where
  "ssig0 x = rotr 7 x XOR rotr 18 x XOR drop_bit 3 x"

definition ssig1 :: "u32 \<Rightarrow> u32" where
  "ssig1 x = rotr 17 x XOR rotr 19 x XOR drop_bit 10 x"

definition K256 :: "u32 list" where
  "K256 =
    [0x428A2F98, 0x71374491, 0xB5C0FBCF, 0xE9B5DBA5, 0x3956C25B, 0x59F111F1, 0x923F82A4, 0xAB1C5ED5,
     0xD807AA98, 0x12835B01, 0x243185BE, 0x550C7DC3, 0x72BE5D74, 0x80DEB1FE, 0x9BDC06A7, 0xC19BF174,
     0xE49B69C1, 0xEFBE4786, 0x0FC19DC6, 0x240CA1CC, 0x2DE92C6F, 0x4A7484AA, 0x5CB0A9DC, 0x76F988DA,
     0x983E5152, 0xA831C66D, 0xB00327C8, 0xBF597FC7, 0xC6E00BF3, 0xD5A79147, 0x06CA6351, 0x14292967,
     0x27B70A85, 0x2E1B2138, 0x4D2C6DFC, 0x53380D13, 0x650A7354, 0x766A0ABB, 0x81C2C92E, 0x92722C85,
     0xA2BFE8A1, 0xA81A664B, 0xC24B8B70, 0xC76C51A3, 0xD192E819, 0xD6990624, 0xF40E3585, 0x106AA070,
     0x19A4C116, 0x1E376C08, 0x2748774C, 0x34B0BCB5, 0x391C0CB3, 0x4ED8AA4A, 0x5B9CCA4F, 0x682E6FF3,
     0x748F82EE, 0x78A5636F, 0x84C87814, 0x8CC70208, 0x90BEFFFA, 0xA4506CEB, 0xBEF9A3F7, 0xC67178F2]"

type_synonym hash = "u32 \<times> u32 \<times> u32 \<times> u32 \<times> u32 \<times> u32 \<times> u32 \<times> u32"

definition H256 :: hash where
  "H256 = (0x6A09E667, 0xBB67AE85, 0x3C6EF372, 0xA54FF53A, 0x510E527F, 0x9B05688C, 0x1F83D9AB, 0x5BE0CD19)"

definition be64 :: "64 word \<Rightarrow> byte list" where
  "be64 n = map (\<lambda>i. ucast (drop_bit (8 * (7 - i)) n)) [0..<8]"

definition pad :: "byte list \<Rightarrow> byte list" where
  "pad bs = bs @ [0x80] @ replicate ((119 - length bs mod 64) mod 64) 0 @ be64 (8 * word_of_nat (length bs))"

definition be32 :: "byte list \<Rightarrow> u32" where
  "be32 bs = foldl (\<lambda>acc b. push_bit 8 acc OR ucast b) 0 bs"

definition blocks :: "byte list \<Rightarrow> u32 list list" where
  "blocks bs = map (\<lambda>i. map (\<lambda>j. be32 (take 4 (drop (64 * i + 4 * j) bs))) [0..<16]) [0..<length bs div 64]"

fun schedule :: "nat \<Rightarrow> u32 list \<Rightarrow> u32 list" where
  "schedule 0 w = w"
| "schedule (Suc n) w =
     (let t = length w
      in schedule n (w @ [ssig1 (w ! (t - 2)) + w ! (t - 7) + ssig0 (w ! (t - 15)) + w ! (t - 16)]))"

fun round :: "hash \<Rightarrow> u32 \<times> u32 \<Rightarrow> hash" where
  "round (a, b, c, d, e, f, g, h) (k, w) =
     (let t1 = h + bsig1 e + ch e f g + k + w;
          t2 = bsig0 a + maj a b c
      in (t1 + t2, a, b, c, d + t1, e, f, g))"

fun add_hash :: "hash \<Rightarrow> hash \<Rightarrow> hash" where
  "add_hash (a, b, c, d, e, f, g, h) (a', b', c', d', e', f', g', h') =
     (a + a', b + b', c + c', d + d', e + e', f + f', g + g', h + h')"

definition compress :: "hash \<Rightarrow> u32 list \<Rightarrow> hash" where
  "compress hv blk = add_hash hv (foldl round hv (zip K256 (schedule 48 blk)))"

definition sha256 :: "byte list \<Rightarrow> hash" where
  "sha256 bs = foldl compress H256 (blocks (pad bs))"

definition hex_digit :: "nat \<Rightarrow> char" where
  "hex_digit n = ''0123456789abcdef'' ! (n mod 16)"

definition hex32 :: "u32 \<Rightarrow> string" where
  "hex32 x = map (\<lambda>i. hex_digit (unat (drop_bit (4 * (7 - i)) x AND 15))) [0..<8]"

fun hexdigest :: "hash \<Rightarrow> string" where
  "hexdigest (a, b, c, d, e, f, g, h) =
     hex32 a @ hex32 b @ hex32 c @ hex32 d @ hex32 e @ hex32 f @ hex32 g @ hex32 h"

definition utf8 :: "char \<Rightarrow> byte list" where
  "utf8 c = (let n = of_char c :: nat in
     if n < 128 then [word_of_nat n]
     else [word_of_nat (192 + n div 64), word_of_nat (128 + n mod 64)])"

definition encode_utf8 :: "string \<Rightarrow> byte list" where
  "encode_utf8 s = concat (map utf8 s)"

definition calculate_checksum :: "string \<Rightarrow> string" where
  "calculate_checksum content = hexdigest (sha256 (encode_utf8 content))"


section \<open>The executor: \<^verbatim>\<open>apply_migration\<close> and \<open>rollback_migration\<close>\<close>

text \<open>
  A call returns a value and the world it leaves (\<open>Inr\<close>), or raises (\<open>Inl\<close>): then the
  result is the exception, the migration object as the call leaves it, and the world.

  The body of the \<^verbatim>\<open>try\<close> block of \<^verbatim>\<open>apply_migration\<close>: two field assignments on the
  dataclass instance, one read of the clock, one \<^verbatim>\<open>print\<close>. The assignments and the
  clock do not raise; the \<^verbatim>\<open>print\<close> may, and the two assignments have been made by then.
\<close>

definition apply_try :: "Migration \<Rightarrow> world \<Rightarrow> (exn \<times> Migration \<times> world) + (Migration \<times> world)" where
  "apply_try m w =
     (let m1 = m\<lparr>status := COMPLETED\<rparr>;
          m2 = m1\<lparr>applied_at := Some (clock w)\<rparr>
      in case print (AppliedLine (version m2) (name m2)) w of
           Inl e \<Rightarrow> Inl (e, m2, w)
         | Inr w1 \<Rightarrow> Inr (m2, w1))"

text \<open>
  The two prints of a dry run are outside the \<^verbatim>\<open>try\<close>: an exception of theirs leaves the
  call. The \<^verbatim>\<open>except\<close> branch catches what the \<^verbatim>\<open>try\<close> body raises, sets the status and
  prints the failure line; an exception of that \<^verbatim>\<open>print\<close> leaves the call.
\<close>

definition apply_migration ::
  "Migration \<Rightarrow> bool \<Rightarrow> world \<Rightarrow> (exn \<times> Migration \<times> world) + ((bool \<times> Migration) \<times> world)" where
  "apply_migration m dry_run w =
     (if dry_run then
        (case print (DryRunApply (version m) (name m)) w of
           Inl e \<Rightarrow> Inl (e, m, w)
         | Inr w1 \<Rightarrow>
             (case print (SqlLine (take 100 (up_sql m))) w1 of
                Inl e \<Rightarrow> Inl (e, m, w1)
              | Inr w2 \<Rightarrow> Inr ((True, m), w2)))
      else
        (case apply_try m w of
           Inr (m', w') \<Rightarrow> Inr ((True, m'), w')
         | Inl (e, m', w') \<Rightarrow>
             (let m'' = m'\<lparr>status := FAILED\<rparr>
              in case print (ApplyFailedLine (version m'') (str_exn e)) w' of
                   Inl e' \<Rightarrow> Inl (e', m'', w')
                 | Inr w'' \<Rightarrow> Inr ((False, m''), w''))))"

definition rollback_try :: "Migration \<Rightarrow> world \<Rightarrow> (exn \<times> Migration \<times> world) + (Migration \<times> world)" where
  "rollback_try m w =
     (let m1 = m\<lparr>status := ROLLED_BACK\<rparr>
      in case print (RolledBackLine (version m1) (name m1)) w of
           Inl e \<Rightarrow> Inl (e, m1, w)
         | Inr w1 \<Rightarrow> Inr (m1, w1))"

definition rollback_migration ::
  "Migration \<Rightarrow> bool \<Rightarrow> world \<Rightarrow> (exn \<times> Migration \<times> world) + ((bool \<times> Migration) \<times> world)" where
  "rollback_migration m dry_run w =
     (if dry_run then
        (case print (DryRunRollback (version m) (name m)) w of
           Inl e \<Rightarrow> Inl (e, m, w)
         | Inr w1 \<Rightarrow>
             (case print (SqlLine (take 100 (down_sql m))) w1 of
                Inl e \<Rightarrow> Inl (e, m, w1)
              | Inr w2 \<Rightarrow> Inr ((True, m), w2)))
      else
        (case rollback_try m w of
           Inr (m', w') \<Rightarrow> Inr ((True, m'), w')
         | Inl (e, m', w') \<Rightarrow>
             (case print (RollbackFailedLine (version m') (str_exn e)) w' of
                Inl e' \<Rightarrow> Inl (e', m', w')
              | Inr w'' \<Rightarrow> Inr ((False, m'), w''))))"

text \<open>
  \<^verbatim>\<open>get_applied_migrations\<close>: the dictionary from version to migration, in insertion
  order. The source returns the empty dictionary.
\<close>

definition get_applied_migrations :: "(string \<times> Migration) list" where
  "get_applied_migrations = []"

section \<open>The string operations \<^verbatim>\<open>load_migrations\<close> uses\<close>

text \<open>\<^verbatim>\<open>s.endswith(suffix)\<close>.\<close>

definition endswith :: "string \<Rightarrow> string \<Rightarrow> bool" where
  "endswith s suf = suffix suf s"

text \<open>
  The leftmost occurrence of a separator: the text before it and the text after it, or
  \<open>None\<close> when the separator does not occur.
\<close>

fun find_sep :: "string \<Rightarrow> string \<Rightarrow> (string \<times> string) option" where
  "find_sep sep [] = (if sep = [] then Some ([], []) else None)"
| "find_sep sep (c # cs) =
     (if prefix sep (c # cs) then Some ([], drop (length sep) (c # cs))
      else case find_sep sep cs of
             None \<Rightarrow> None
           | Some (a, b) \<Rightarrow> Some (c # a, b))"

text \<open>
  \<^verbatim>\<open>s.split(sep)\<close> cuts at the occurrences of the separator found from left to right
  without overlap. The source passes the literals \<^verbatim>\<open>'__'\<close> and \<^verbatim>\<open>'-- DOWN'\<close>; Python
  raises \<^verbatim>\<open>ValueError\<close> on an empty separator, which no call of the source passes, and
  the model returns the text whole there.
\<close>

function str_split :: "string \<Rightarrow> string \<Rightarrow> string list" where
  "str_split sep s =
     (if sep = [] then [s]
      else case find_sep sep s of
             None \<Rightarrow> [s]
           | Some (a, b) \<Rightarrow> a # str_split sep b)"
  by pat_completeness auto
termination
proof (relation "measure (\<lambda>(sep, s). length s)")
  show "wf (measure (\<lambda>(sep, s). length s))" by simp
next
  fix sep s :: string and x a b
  assume ne: "sep \<noteq> []" and f: "find_sep sep s = Some x" and x: "(a, b) = x"
  have len: "find_sep sep t = Some (u, v) \<Longrightarrow> length t = length u + length sep + length v"
    for t u v
  proof (induction t arbitrary: u)
    case Nil
    then show ?case by (simp split: if_splits)
  next
    case (Cons c cs)
    show ?case
    proof (cases "prefix sep (c # cs)")
      case True
      then have "length sep \<le> length (c # cs)" by (rule prefix_length_le)
      with True Cons.prems show ?thesis by auto
    next
      case False
      with Cons.prems obtain u' where "find_sep sep cs = Some (u', v)" and "u = c # u'"
        by (auto split: option.splits)
      with Cons.IH show ?thesis by simp
    qed
  qed
  from f x have "find_sep sep s = Some (a, b)" by simp
  from len [OF this] ne have "length b < length s" by (cases sep) simp_all
  then show "((sep, b), (sep, s)) \<in> measure (\<lambda>(sep, s). length s)" by simp
qed

text \<open>
  \<^verbatim>\<open>s.replace(old, new)\<close> replaces the occurrences of \<open>old\<close> found from left to right
  without overlap. For an empty \<open>old\<close> Python puts \<open>new\<close> before every character and at
  the end.
\<close>

function str_replace :: "string \<Rightarrow> string \<Rightarrow> string \<Rightarrow> string" where
  "str_replace old new s =
     (if old = [] then new @ concat (map (\<lambda>c. c # new) s)
      else case find_sep old s of
             None \<Rightarrow> s
           | Some (a, b) \<Rightarrow> a @ new @ str_replace old new b)"
  by pat_completeness auto
termination
proof (relation "measure (\<lambda>(old, new, s). length s)")
  show "wf (measure (\<lambda>(old, new, s). length s))" by simp
next
  fix old new s :: string and x a b
  assume ne: "old \<noteq> []" and f: "find_sep old s = Some x" and x: "(a, b) = x"
  have len: "find_sep old t = Some (u, v) \<Longrightarrow> length t = length u + length old + length v"
    for t u v
  proof (induction t arbitrary: u)
    case Nil
    then show ?case by (simp split: if_splits)
  next
    case (Cons c cs)
    show ?case
    proof (cases "prefix old (c # cs)")
      case True
      then have "length old \<le> length (c # cs)" by (rule prefix_length_le)
      with True Cons.prems show ?thesis by auto
    next
      case False
      with Cons.prems obtain u' where "find_sep old cs = Some (u', v)" and "u = c # u'"
        by (auto split: option.splits)
      with Cons.IH show ?thesis by simp
    qed
  qed
  from f x have "find_sep old s = Some (a, b)" by simp
  from len [OF this] ne have "length b < length s" by (cases old) simp_all
  then show "((old, new, b), (old, new, s)) \<in> measure (\<lambda>(old, new, s). length s)" by simp
qed

text \<open>
  \<^verbatim>\<open>s.strip()\<close> removes the white space at both ends. Of the code points below 256,
  \<^verbatim>\<open>str.isspace\<close> holds for 9 to 13, 28 to 32, 133 and 160.
\<close>

definition isspace :: "char \<Rightarrow> bool" where
  "isspace c = (of_char c \<in> set [9, 10, 11, 12, 13, 28, 29, 30, 31, 32, 133, 160 :: nat])"

definition strip :: "string \<Rightarrow> string" where
  "strip s = rev (dropWhile isspace (rev (dropWhile isspace s)))"

section \<open>The registry: \<^verbatim>\<open>load_migrations\<close>\<close>

text \<open>
  The migrations directory, as \<^verbatim>\<open>os.listdir\<close> lists it (in any order): each entry is a
  file name with the text \<^verbatim>\<open>open(filepath, 'r').read()\<close> returns, or \<open>None\<close> where
  opening or reading the entry raises (a subdirectory, a file that may not be read).
  \<open>None\<close> for the directory itself is a path that does not exist.
\<close>

type_synonym directory = "(string \<times> string option) list"

text \<open>
  The body of the loop after the file has been read: the file name is parsed, a name
  that does not give two parts is skipped (\<open>None\<close>), and the text is cut into the two
  sections.
\<close>

definition parse_migration :: "string \<Rightarrow> string \<Rightarrow> Migration option" where
  "parse_migration filename content =
     (let parts = str_split ''__'' (str_replace ''.sql'' '''' filename)
      in if length parts \<noteq> 2 then None
         else
           (let version = parts ! 0;
                name = parts ! 1;
                sections = str_split ''-- DOWN'' content;
                up_sql = strip (str_replace ''-- UP'' '''' (sections ! 0));
                down_sql = (if length sections > 1 then strip (sections ! 1) else '''')
            in Some \<lparr>version = version,
                     name = name,
                     description = ''Migration '' @ version @ '': '' @ name,
                     up_sql = up_sql,
                     down_sql = down_sql,
                     checksum = calculate_checksum up_sql,
                     applied_at = None,
                     status = PENDING\<rparr>))"

fun load_loop :: "directory \<Rightarrow> string list \<Rightarrow> Migration list \<Rightarrow> exn + Migration list" where
  "load_loop d [] migrations = Inr migrations"
| "load_loop d (filename # filenames) migrations =
     (if \<not> endswith filename ''.sql'' then load_loop d filenames migrations
      else case map_of d filename of
             Some (Some content) \<Rightarrow>
               (case parse_migration filename content of
                  None \<Rightarrow> load_loop d filenames migrations
                | Some migration \<Rightarrow> load_loop d filenames (migrations @ [migration]))
           | _ \<Rightarrow> Inl (OSError filename))"

text \<open>
  \<^verbatim>\<open>load_migrations\<close> returns the migrations, or the exception of the first file that could
  not be read, and the directory as it leaves it: a missing directory is created empty.
  Both calls of \<^verbatim>\<open>sorted\<close> are stable sorts, as \<^const>\<open>sort_key\<close> is.
\<close>

fun load_migrations :: "directory option \<Rightarrow> (exn + Migration list) \<times> directory option" where
  "load_migrations None = (Inr [], Some [])"
| "load_migrations (Some d) =
     (case load_loop d (sort (map fst d)) [] of
        Inl e \<Rightarrow> (Inl e, Some d)
      | Inr migrations \<Rightarrow> (Inr (sort_key version migrations), Some d))"

section \<open>The planner: \<^verbatim>\<open>migrate_up\<close>, \<open>migrate_down\<close> and \<open>get_migration_status\<close>\<close>

text \<open>
  The two bulk operations call \<^verbatim>\<open>self.apply_migration\<close>, \<^verbatim>\<open>self.rollback_migration\<close>
  and \<^verbatim>\<open>self.get_applied_migrations\<close>. Their loops are written over any executor and
  any dictionary of applied migrations; \<open>migrate_up\<close> and \<open>migrate_down\<close> below are the
  loops with the three methods of the source. The loops have no \<^verbatim>\<open>try\<close>: an exception
  of the executor, or of \<^verbatim>\<open>load_migrations\<close>, leaves the bulk operation.
\<close>

type_synonym 'w executor =
  "Migration \<Rightarrow> bool \<Rightarrow> 'w \<Rightarrow> (exn \<times> Migration \<times> 'w) + ((bool \<times> Migration) \<times> 'w)"

text \<open>
  \<^verbatim>\<open>target_version and migration.version > target_version\<close>: \<^verbatim>\<open>None\<close> and the empty
  string are both false in Python.
\<close>

definition beyond_target :: "string option \<Rightarrow> string \<Rightarrow> bool" where
  "beyond_target target_version v =
     (case target_version of
        None \<Rightarrow> False
      | Some t \<Rightarrow> t \<noteq> [] \<and> v > t)"

fun migrate_up_loop ::
  "'w executor \<Rightarrow> (string \<times> Migration) list \<Rightarrow> string option \<Rightarrow> bool \<Rightarrow>
   Migration list \<Rightarrow> nat \<times> nat \<Rightarrow> 'w \<Rightarrow> (exn \<times> 'w) + ((nat \<times> nat) \<times> 'w)" where
  "migrate_up_loop exec applied target_version dry_run [] (successful, failed) w =
     Inr ((successful, failed), w)"
| "migrate_up_loop exec applied target_version dry_run (migration # migrations) (successful, failed) w =
     (if version migration \<in> set (map fst applied)
      then migrate_up_loop exec applied target_version dry_run migrations (successful, failed) w
      else if beyond_target target_version (version migration)
      then Inr ((successful, failed), w)
      else case exec migration dry_run w of
             Inl (e, _, w') \<Rightarrow> Inl (e, w')
           | Inr ((True, _), w') \<Rightarrow>
               migrate_up_loop exec applied target_version dry_run migrations (successful + 1, failed) w'
           | Inr ((False, _), w') \<Rightarrow> Inr ((successful, failed + 1), w'))"

definition migrate_up_with ::
  "'w executor \<Rightarrow> (string \<times> Migration) list \<Rightarrow> string option \<Rightarrow> bool \<Rightarrow>
   directory option \<Rightarrow> 'w \<Rightarrow> ((exn \<times> 'w) + ((nat \<times> nat) \<times> 'w)) \<times> directory option" where
  "migrate_up_with exec applied target_version dry_run fs w =
     (case load_migrations fs of
        (Inl e, fs') \<Rightarrow> (Inl (e, w), fs')
      | (Inr migrations, fs') \<Rightarrow>
          (migrate_up_loop exec applied target_version dry_run migrations (0, 0) w, fs'))"

definition migrate_up ::
  "string option \<Rightarrow> bool \<Rightarrow> directory option \<Rightarrow> world \<Rightarrow>
   ((exn \<times> world) + ((nat \<times> nat) \<times> world)) \<times> directory option" where
  "migrate_up = migrate_up_with apply_migration get_applied_migrations"

text \<open>
  \<^verbatim>\<open>sorted(xs, key=lambda m: m.version, reverse=True)\<close>: descending, and stable (elements
  with equal keys keep their order).
\<close>

definition sorted_reverse :: "Migration list \<Rightarrow> Migration list" where
  "sorted_reverse xs = rev (sort_key version (rev xs))"

text \<open>The slice \<^verbatim>\<open>xs[:k]\<close>; a negative \<open>k\<close> counts from the end.\<close>

definition slice_to :: "int \<Rightarrow> 'a list \<Rightarrow> 'a list" where
  "slice_to k xs = (if 0 \<le> k then take (nat k) xs else take (length xs - nat (- k)) xs)"

fun migrate_down_loop ::
  "'w executor \<Rightarrow> bool \<Rightarrow> Migration list \<Rightarrow> nat \<times> nat \<Rightarrow> 'w \<Rightarrow>
   (exn \<times> 'w) + ((nat \<times> nat) \<times> 'w)" where
  "migrate_down_loop exec dry_run [] (successful, failed) w = Inr ((successful, failed), w)"
| "migrate_down_loop exec dry_run (migration # migrations) (successful, failed) w =
     (case exec migration dry_run w of
        Inl (e, _, w') \<Rightarrow> Inl (e, w')
      | Inr ((True, _), w') \<Rightarrow> migrate_down_loop exec dry_run migrations (successful + 1, failed) w'
      | Inr ((False, _), w') \<Rightarrow> Inr ((successful, failed + 1), w'))"

definition migrate_down_with ::
  "'w executor \<Rightarrow> (string \<times> Migration) list \<Rightarrow> int \<Rightarrow> bool \<Rightarrow> 'w \<Rightarrow>
   (exn \<times> 'w) + ((nat \<times> nat) \<times> 'w)" where
  "migrate_down_with exec applied steps dry_run w =
     (let migrations_to_rollback = slice_to steps (sorted_reverse (map snd applied))
      in migrate_down_loop exec dry_run migrations_to_rollback (0, 0) w)"

definition migrate_down :: "int \<Rightarrow> bool \<Rightarrow> world \<Rightarrow> (exn \<times> world) + ((nat \<times> nat) \<times> world)" where
  "migrate_down = migrate_down_with rollback_migration get_applied_migrations"

record status_report =
  total_migrations :: nat
  applied_count :: nat
  pending_count :: nat
  current_version :: "string option"
  latest_version :: "string option"
  pending_migrations :: "string list"

definition get_migration_status_with ::
  "(string \<times> Migration) list \<Rightarrow> directory option \<Rightarrow> (exn + status_report) \<times> directory option" where
  "get_migration_status_with applied fs =
     (case load_migrations fs of
        (Inl e, fs') \<Rightarrow> (Inl e, fs')
      | (Inr all_migrations, fs') \<Rightarrow>
          (let pending = filter (\<lambda>m. version m \<notin> set (map fst applied)) all_migrations
           in (Inr \<lparr>total_migrations = length all_migrations,
                    applied_count = length applied,
                    pending_count = length pending,
                    current_version = (if applied \<noteq> [] then Some (Max (set (map fst applied))) else None),
                    latest_version = (if all_migrations \<noteq> [] then Some (version (last all_migrations)) else None),
                    pending_migrations = map version pending\<rparr>, fs')))"

definition get_migration_status :: "directory option \<Rightarrow> (exn + status_report) \<times> directory option" where
  "get_migration_status = get_migration_status_with get_applied_migrations"

section \<open>Example inputs\<close>

text \<open>The migration object of the two dry-run tests of \<^verbatim>\<open>tests/test_database_migration.py\<close>.\<close>

definition example_migration :: Migration where
  "example_migration =
     \<lparr>version = ''V001'', name = ''test_migration'', description = ''Test migration'',
      up_sql = ''CREATE TABLE test (id INT);'', down_sql = ''DROP TABLE test;'',
      checksum = ''abc123'', applied_at = None, status = PENDING\<rparr>"

text \<open>A world whose standard output takes every line.\<close>

definition example_world :: world where
  "example_world = \<lparr>clock = 1700000000, stdout = [], stdout_error = (\<lambda>l. None)\<rparr>"

text \<open>
  A standard output that does not take the names of the migrations, as when a file name
  holds a byte that \<^verbatim>\<open>os.listdir\<close> decodes to a lone surrogate, which no encoding
  writes: printing a line that holds a name raises, the other lines are written.
\<close>

fun name_error :: "line \<Rightarrow> exn option" where
  "name_error (DryRunApply v n) = Some (Exception ''surrogates not allowed'')"
| "name_error (DryRunRollback v n) = Some (Exception ''surrogates not allowed'')"
| "name_error (AppliedLine v n) = Some (Exception ''surrogates not allowed'')"
| "name_error (RolledBackLine v n) = Some (Exception ''surrogates not allowed'')"
| "name_error (SqlLine s) = None"
| "name_error (ApplyFailedLine v e) = None"
| "name_error (RollbackFailedLine v e) = None"

definition unnameable_world :: world where
  "unnameable_world = \<lparr>clock = 1700000000, stdout = [], stdout_error = name_error\<rparr>"

text \<open>
  A migration file with an up and a down section, and a directory that lists three such
  files in the order V003, V001, V002.
\<close>

definition example_file :: "string \<Rightarrow> string" where
  "example_file table =
     ''-- UP\<newline>CREATE TABLE '' @ table @ ''(id INT);\<newline>-- DOWN\<newline>DROP TABLE '' @ table @ '';\<newline>''"

definition example_dir :: directory where
  "example_dir =
     [(''V003__create_comments.sql'', Some (example_file ''comments'')),
      (''V001__create_users.sql'', Some (example_file ''users'')),
      (''V002__create_posts.sql'', Some (example_file ''posts''))]"

text \<open>What \<^verbatim>\<open>load_migrations\<close> makes of one such file.\<close>

definition loaded_migration :: "string \<Rightarrow> string \<Rightarrow> string \<Rightarrow> Migration" where
  "loaded_migration v n table =
     \<lparr>version = v, name = n, description = ''Migration '' @ v @ '': '' @ n,
      up_sql = ''CREATE TABLE '' @ table @ ''(id INT);'',
      down_sql = ''DROP TABLE '' @ table @ '';'',
      checksum = calculate_checksum (''CREATE TABLE '' @ table @ ''(id INT);''),
      applied_at = None, status = PENDING\<rparr>"

definition example_loaded :: "Migration list" where
  "example_loaded =
     [loaded_migration ''V001'' ''create_users'' ''users'',
      loaded_migration ''V002'' ''create_posts'' ''posts'',
      loaded_migration ''V003'' ''create_comments'' ''comments'']"

text \<open>
  A test double for the executor, not part of the source: it fails on the versions in
  \<open>bad\<close>, never raises, and its state is the list of the versions it was called with.
\<close>

definition recording_executor :: "string list \<Rightarrow> string list executor" where
  "recording_executor bad migration dry_run calls =
     Inr ((version migration \<notin> set bad, migration), calls @ [version migration])"

text \<open>A directory whose only file has no down section.\<close>

definition example_dir_no_down :: directory where
  "example_dir_no_down =
     [(''V001__create_users.sql'', Some ''-- UP\<newline>CREATE TABLE users(id INT);\<newline>'')]"

section \<open>What the executor does, by what standard output takes\<close>

lemma apply_migration_dry:
  "apply_migration m True w =
     (case stdout_error w (DryRunApply (version m) (name m)) of
        Some e \<Rightarrow> Inl (e, m, w)
      | None \<Rightarrow>
          (case stdout_error w (SqlLine (take 100 (up_sql m))) of
             Some e \<Rightarrow> Inl (e, m, w\<lparr>stdout := stdout w @ [DryRunApply (version m) (name m)]\<rparr>)
           | None \<Rightarrow>
               Inr ((True, m),
                    w\<lparr>stdout := stdout w @
                       [DryRunApply (version m) (name m), SqlLine (take 100 (up_sql m))]\<rparr>)))"
  by (simp add: apply_migration_def print_def split: option.splits)


lemma apply_migration_run:
  "apply_migration m False w =
     (case stdout_error w (AppliedLine (version m) (name m)) of
        None \<Rightarrow>
          Inr ((True, m\<lparr>status := COMPLETED, applied_at := Some (clock w)\<rparr>),
               w\<lparr>stdout := stdout w @ [AppliedLine (version m) (name m)]\<rparr>)
      | Some e \<Rightarrow>
          (case stdout_error w (ApplyFailedLine (version m) (str_exn e)) of
             None \<Rightarrow>
               Inr ((False, m\<lparr>status := FAILED, applied_at := Some (clock w)\<rparr>),
                    w\<lparr>stdout := stdout w @ [ApplyFailedLine (version m) (str_exn e)]\<rparr>)
           | Some e' \<Rightarrow> Inl (e', m\<lparr>status := FAILED, applied_at := Some (clock w)\<rparr>, w)))"
  by (simp add: apply_migration_def apply_try_def print_def Let_def split: option.splits)

lemma rollback_migration_run:
  "rollback_migration m False w =
     (case stdout_error w (RolledBackLine (version m) (name m)) of
        None \<Rightarrow>
          Inr ((True, m\<lparr>status := ROLLED_BACK\<rparr>),
               w\<lparr>stdout := stdout w @ [RolledBackLine (version m) (name m)]\<rparr>)
      | Some e \<Rightarrow>
          (case stdout_error w (RollbackFailedLine (version m) (str_exn e)) of
             None \<Rightarrow>
               Inr ((False, m\<lparr>status := ROLLED_BACK\<rparr>),
                    w\<lparr>stdout := stdout w @ [RollbackFailedLine (version m) (str_exn e)]\<rparr>)
           | Some e' \<Rightarrow> Inl (e', m\<lparr>status := ROLLED_BACK\<rparr>, w)))"
  by (simp add: rollback_migration_def rollback_try_def print_def Let_def split: option.splits)

lemma apply_migration_returns:
  assumes "\<forall>v n. stdout_error w (AppliedLine v n) = None"
    and "apply_migration m dry_run w = Inr ((ok, m'), w')"
  shows "ok \<and> stdout_error w' = stdout_error w"
proof (cases dry_run)
  case True
  with assms(2) show ?thesis
    by (auto simp: apply_migration_dry split: option.splits)
next
  case False
  with assms show ?thesis
    by (auto simp: apply_migration_run)
qed

section \<open>The example directory\<close>

lemma sort_example_dir:
  "sort (map fst example_dir) =
     [''V001__create_users.sql'', ''V002__create_posts.sql'', ''V003__create_comments.sql'']"
  by (simp add: example_dir_def)

lemma parse_example_users:
  "parse_migration ''V001__create_users.sql'' (example_file ''users'') =
     Some (loaded_migration ''V001'' ''create_users'' ''users'')"
  by (simp add: parse_migration_def example_file_def loaded_migration_def strip_def isspace_def Let_def)

lemma parse_example_posts:
  "parse_migration ''V002__create_posts.sql'' (example_file ''posts'') =
     Some (loaded_migration ''V002'' ''create_posts'' ''posts'')"
  by (simp add: parse_migration_def example_file_def loaded_migration_def strip_def isspace_def Let_def)

lemma parse_example_comments:
  "parse_migration ''V003__create_comments.sql'' (example_file ''comments'') =
     Some (loaded_migration ''V003'' ''create_comments'' ''comments'')"
  by (simp add: parse_migration_def example_file_def loaded_migration_def strip_def isspace_def Let_def)

lemma load_loop_example_dir:
  "load_loop example_dir
     [''V001__create_users.sql'', ''V002__create_posts.sql'', ''V003__create_comments.sql''] [] =
   Inr example_loaded"
proof -
  have look:
    "map_of example_dir ''V001__create_users.sql'' = Some (Some (example_file ''users''))"
    "map_of example_dir ''V002__create_posts.sql'' = Some (Some (example_file ''posts''))"
    "map_of example_dir ''V003__create_comments.sql'' = Some (Some (example_file ''comments''))"
    by (simp_all add: example_dir_def)
  have ends:
    "endswith ''V001__create_users.sql'' ''.sql''"
    "endswith ''V002__create_posts.sql'' ''.sql''"
    "endswith ''V003__create_comments.sql'' ''.sql''"
    by (simp_all add: endswith_def suffix_to_prefix)
  show ?thesis
    by (simp add: look ends parse_example_users parse_example_posts parse_example_comments
        example_loaded_def)
qed

lemma sort_key_example_loaded: "sort_key version example_loaded = example_loaded"
  by (simp add: example_loaded_def loaded_migration_def)

lemma load_example_dir: "load_migrations (Some example_dir) = (Inr example_loaded, Some example_dir)"
  by (simp only: load_migrations.simps sort_example_dir load_loop_example_dir
      sort_key_example_loaded sum.case)

section \<open>The loops of the planner\<close>

lemma migrate_up_loop_failed_le:
  "migrate_up_loop exec applied t dry ms (s, f) w = Inr ((s', f'), w') \<Longrightarrow> f' \<le> f + 1"
proof (induction ms arbitrary: s w)
  case Nil
  then show ?case by simp
next
  case (Cons m ms)
  show ?case
  proof (cases "exec m dry w")
    case (Inl a)
    with Cons.prems Cons.IH [of s w] show ?thesis
      by (cases a) (auto split: if_splits)
  next
    case (Inr b)
    obtain ok m' w1 where b: "b = ((ok, m'), w1)"
      by (metis surj_pair)
    with Inr Cons.prems Cons.IH [of s w] Cons.IH [of "s + 1" w1] show ?thesis
      by (cases ok) (auto split: if_splits)
  qed
qed

lemma migrate_up_loop_halt:
  "migrate_up_loop exec applied t dry pre (s, f) w = Inr ((s', f + 1), w') \<Longrightarrow>
   migrate_up_loop exec applied t dry (pre @ rest) (s, f) w = Inr ((s', f + 1), w')"
proof (induction pre arbitrary: s w)
  case Nil
  then show ?case by simp
next
  case (Cons m ms)
  show ?case
  proof (cases "version m \<in> set (map fst applied)")
    case True
    with Cons.prems Cons.IH [of s w] show ?thesis by simp
  next
    case pending: False
    show ?thesis
    proof (cases "beyond_target t (version m)")
      case True
      with pending Cons.prems show ?thesis by simp
    next
      case within: False
      show ?thesis
      proof (cases "exec m dry w")
        case (Inl a)
        with pending within Cons.prems show ?thesis
          by (cases a) simp
      next
        case (Inr b)
        obtain ok m' w1 where b: "b = ((ok, m'), w1)"
          by (metis surj_pair)
        with Inr pending within Cons.prems Cons.IH [of "s + 1" w1] show ?thesis
          by (cases ok) simp_all
      qed
    qed
  qed
qed

lemma migrate_up_loop_raise:
  "migrate_up_loop exec applied t dry pre (s, f) w = Inl x \<Longrightarrow>
   migrate_up_loop exec applied t dry (pre @ rest) (s, f) w = Inl x"
proof (induction pre arbitrary: s w)
  case Nil
  then show ?case by simp
next
  case (Cons m ms)
  show ?case
  proof (cases "version m \<in> set (map fst applied)")
    case True
    with Cons.prems Cons.IH [of s w] show ?thesis by simp
  next
    case pending: False
    show ?thesis
    proof (cases "beyond_target t (version m)")
      case True
      with pending Cons.prems show ?thesis by simp
    next
      case within: False
      show ?thesis
      proof (cases "exec m dry w")
        case (Inl a)
        with pending within Cons.prems show ?thesis
          by (cases a) simp
      next
        case (Inr b)
        obtain ok m' w1 where b: "b = ((ok, m'), w1)"
          by (metis surj_pair)
        with Inr pending within Cons.prems Cons.IH [of "s + 1" w1] show ?thesis
          by (cases ok) simp_all
      qed
    qed
  qed
qed

lemma migrate_up_loop_apply_failed:
  assumes "\<forall>v n. stdout_error w (AppliedLine v n) = None"
    and "migrate_up_loop apply_migration applied t dry ms (s, f) w = Inr ((s', f'), w')"
  shows "f' = f"
  using assms
proof (induction ms arbitrary: s w)
  case Nil
  then show ?case by simp
next
  case (Cons m ms)
  show ?case
  proof (cases "version m \<in> set (map fst applied)")
    case True
    with Cons.prems Cons.IH [of w s] show ?thesis by simp
  next
    case pending: False
    show ?thesis
    proof (cases "beyond_target t (version m)")
      case True
      with pending Cons.prems show ?thesis by simp
    next
      case within: False
      show ?thesis
      proof (cases "apply_migration m dry w")
        case (Inl a)
        with pending within Cons.prems(2) show ?thesis
          by (cases a) simp
      next
        case (Inr b)
        obtain ok m' w1 where b: "b = ((ok, m'), w1)"
          by (metis surj_pair)
        from apply_migration_returns [OF Cons.prems(1) Inr [unfolded b]]
        have ok: ok and same: "stdout_error w1 = stdout_error w" by simp_all
        from same Cons.prems(1) have "\<forall>v n. stdout_error w1 (AppliedLine v n) = None"
          by simp
        moreover from Inr b ok pending within Cons.prems(2)
        have "migrate_up_loop apply_migration applied t dry ms (s + 1, f) w1 = Inr ((s', f'), w')"
          by simp
        ultimately show ?thesis by (rule Cons.IH)
      qed
    qed
  qed
qed

lemma migrate_up_loop_example_world:
  "migrate_up_loop apply_migration [] None False example_loaded (0, 0) example_world =
     Inr ((3, 0),
          example_world\<lparr>stdout :=
            [AppliedLine ''V001'' ''create_users'', AppliedLine ''V002'' ''create_posts'',
             AppliedLine ''V003'' ''create_comments'']\<rparr>)"
  by (simp add: example_loaded_def loaded_migration_def example_world_def beyond_target_def
      apply_migration_run)

lemma migrate_up_loop_example_empty_target:
  "migrate_up_loop apply_migration [] (Some '''') False example_loaded (0, 0) example_world =
     Inr ((3, 0),
          example_world\<lparr>stdout :=
            [AppliedLine ''V001'' ''create_users'', AppliedLine ''V002'' ''create_posts'',
             AppliedLine ''V003'' ''create_comments'']\<rparr>)"
  by (simp add: example_loaded_def loaded_migration_def example_world_def beyond_target_def
      apply_migration_run)

lemma migrate_up_loop_example_target:
  "migrate_up_loop apply_migration [] (Some ''V002'') False example_loaded (0, 0) example_world =
     Inr ((2, 0),
          example_world\<lparr>stdout :=
            [AppliedLine ''V001'' ''create_users'', AppliedLine ''V002'' ''create_posts'']\<rparr>)"
  by (simp add: example_loaded_def loaded_migration_def example_world_def beyond_target_def
      apply_migration_run)

lemma migrate_up_loop_example_unnameable:
  "migrate_up_loop apply_migration [] None False example_loaded (0, 0) unnameable_world =
     Inr ((0, 1),
          unnameable_world\<lparr>stdout := [ApplyFailedLine ''V001'' ''surrogates not allowed'']\<rparr>)"
  by (simp add: example_loaded_def loaded_migration_def unnameable_world_def beyond_target_def
      apply_migration_run)

lemma migrate_up_loop_example_recorded:
  "migrate_up_loop (recording_executor [''V002'']) [] None False example_loaded (0, 0) [] =
     Inr ((1, 1), [''V001'', ''V002''])"
  by (simp add: example_loaded_def loaded_migration_def recording_executor_def beyond_target_def)

section \<open>The claims about the executor\<close>

text \<open>
  C1, as amended. The source has no check of \<open>down_sql\<close> and no error for an empty one.
  For every migration whose \<open>down_sql\<close> is the empty string, \<open>rollback_migration\<close> with
  \<open>dry_run = False\<close> makes no database call and sets the status to \<open>ROLLED_BACK\<close>, as for
  any other migration; it returns \<open>True\<close> when the success line is written. When printing
  that line raises, the \<^verbatim>\<open>except\<close> branch prints the failure line and the call returns
  \<open>False\<close>, or raises when that line is not written either; the status stays \<open>ROLLED_BACK\<close>.
\<close>

theorem rollback_empty_down_sql_not_refused:
  "down_sql m = '''' \<Longrightarrow>
   rollback_migration m False w =
     (case stdout_error w (RolledBackLine (version m) (name m)) of
        None \<Rightarrow>
          Inr ((True, m\<lparr>status := ROLLED_BACK\<rparr>),
               w\<lparr>stdout := stdout w @ [RolledBackLine (version m) (name m)]\<rparr>)
      | Some e \<Rightarrow>
          (case stdout_error w (RollbackFailedLine (version m) (str_exn e)) of
             None \<Rightarrow>
               Inr ((False, m\<lparr>status := ROLLED_BACK\<rparr>),
                    w\<lparr>stdout := stdout w @ [RollbackFailedLine (version m) (str_exn e)]\<rparr>)
           | Some e' \<Rightarrow> Inl (e', m\<lparr>status := ROLLED_BACK\<rparr>, w)))"
  by (rule rollback_migration_run)

theorem rollback_empty_down_sql_not_refused_witness:
  "down_sql (example_migration\<lparr>down_sql := ''''\<rparr>) = '''' \<and>
   rollback_migration (example_migration\<lparr>down_sql := ''''\<rparr>) False example_world =
     Inr ((True, example_migration\<lparr>down_sql := '''', status := ROLLED_BACK\<rparr>),
          example_world\<lparr>stdout := [RolledBackLine ''V001'' ''test_migration'']\<rparr>) \<and>
   rollback_migration (example_migration\<lparr>down_sql := ''''\<rparr>) False unnameable_world =
     Inr ((False, example_migration\<lparr>down_sql := '''', status := ROLLED_BACK\<rparr>),
          unnameable_world\<lparr>stdout := [RollbackFailedLine ''V001'' ''surrogates not allowed'']\<rparr>)"
  using rollback_empty_down_sql_not_refused [of "example_migration\<lparr>down_sql := ''''\<rparr>" example_world]
    rollback_empty_down_sql_not_refused [of "example_migration\<lparr>down_sql := ''''\<rparr>" unnameable_world]
  by (simp add: example_migration_def example_world_def unnameable_world_def)

text \<open>
  C1 as stated fails: on a completed migration with an empty \<open>down_sql\<close> the call does not
  fail, it returns \<open>True\<close>, and the status is changed from \<open>COMPLETED\<close> to \<open>ROLLED_BACK\<close>.
\<close>

theorem rollback_empty_down_sql_counterexample:
  "down_sql (example_migration\<lparr>down_sql := '''', status := COMPLETED\<rparr>) = '''' \<and>
   status (example_migration\<lparr>down_sql := '''', status := COMPLETED\<rparr>) = COMPLETED \<and>
   rollback_migration (example_migration\<lparr>down_sql := '''', status := COMPLETED\<rparr>)
       False example_world =
     Inr ((True, example_migration\<lparr>down_sql := '''', status := ROLLED_BACK\<rparr>),
          example_world\<lparr>stdout := [RolledBackLine ''V001'' ''test_migration'']\<rparr>)"
  by (simp add: rollback_migration_run example_migration_def example_world_def)

text \<open>
  C3, as amended. In \<open>apply_migration\<close> with \<open>dry_run = False\<close> the one statement of the
  \<^verbatim>\<open>try\<close> body that can raise is the \<^verbatim>\<open>print\<close> of the success line. When that line is
  written the call returns \<open>True\<close>, with the status \<open>COMPLETED\<close> and \<open>applied_at\<close> set to the
  clock's reading. When printing it raises, the \<^verbatim>\<open>except\<close> branch runs: the status becomes
  \<open>FAILED\<close>, \<open>applied_at\<close> stays set, and the call returns \<open>False\<close> if the failure line is
  written and raises if it is not. Where standard output takes every success line, the
  failed count of every \<open>migrate_up\<close> that returns is 0.
\<close>

theorem apply_migration_fails_by_print_only:
  "apply_migration m False w =
     (case stdout_error w (AppliedLine (version m) (name m)) of
        None \<Rightarrow>
          Inr ((True, m\<lparr>status := COMPLETED, applied_at := Some (clock w)\<rparr>),
               w\<lparr>stdout := stdout w @ [AppliedLine (version m) (name m)]\<rparr>)
      | Some e \<Rightarrow>
          (case stdout_error w (ApplyFailedLine (version m) (str_exn e)) of
             None \<Rightarrow>
               Inr ((False, m\<lparr>status := FAILED, applied_at := Some (clock w)\<rparr>),
                    w\<lparr>stdout := stdout w @ [ApplyFailedLine (version m) (str_exn e)]\<rparr>)
           | Some e' \<Rightarrow> Inl (e', m\<lparr>status := FAILED, applied_at := Some (clock w)\<rparr>, w))) \<and>
   ((\<forall>v n. stdout_error w0 (AppliedLine v n) = None) \<and>
    fst (migrate_up target_version dry_run fs w0) = Inr ((successful, failed), w1) \<longrightarrow>
      failed = 0)"
proof (intro conjI impI)
  show "apply_migration m False w =
     (case stdout_error w (AppliedLine (version m) (name m)) of
        None \<Rightarrow>
          Inr ((True, m\<lparr>status := COMPLETED, applied_at := Some (clock w)\<rparr>),
               w\<lparr>stdout := stdout w @ [AppliedLine (version m) (name m)]\<rparr>)
      | Some e \<Rightarrow>
          (case stdout_error w (ApplyFailedLine (version m) (str_exn e)) of
             None \<Rightarrow>
               Inr ((False, m\<lparr>status := FAILED, applied_at := Some (clock w)\<rparr>),
                    w\<lparr>stdout := stdout w @ [ApplyFailedLine (version m) (str_exn e)]\<rparr>)
           | Some e' \<Rightarrow> Inl (e', m\<lparr>status := FAILED, applied_at := Some (clock w)\<rparr>, w)))"
    by (rule apply_migration_run)
next
  assume a: "(\<forall>v n. stdout_error w0 (AppliedLine v n) = None) \<and>
    fst (migrate_up target_version dry_run fs w0) = Inr ((successful, failed), w1)"
  obtain r fs' where load: "load_migrations fs = (r, fs')"
    by (cases "load_migrations fs")
  show "failed = 0"
  proof (cases r)
    case (Inl e)
    with a load show ?thesis
      by (simp add: migrate_up_def migrate_up_with_def)
  next
    case (Inr ms)
    with a load have "migrate_up_loop apply_migration get_applied_migrations target_version
        dry_run ms (0, 0) w0 = Inr ((successful, failed), w1)"
      by (simp add: migrate_up_def migrate_up_with_def)
    with a show ?thesis
      by (blast dest: migrate_up_loop_apply_failed)
  qed
qed

theorem apply_migration_fails_by_print_only_witness:
  "(\<forall>v n. stdout_error example_world (AppliedLine v n) = None) \<and>
   fst (migrate_up None False (Some example_dir) example_world) =
     Inr ((3, 0),
          example_world\<lparr>stdout :=
            [AppliedLine ''V001'' ''create_users'', AppliedLine ''V002'' ''create_posts'',
             AppliedLine ''V003'' ''create_comments'']\<rparr>) \<and>
   (0::nat) = 0"
proof -
  have printable: "\<forall>v n. stdout_error example_world (AppliedLine v n) = None"
    by (simp add: example_world_def)
  have run: "fst (migrate_up None False (Some example_dir) example_world) =
     Inr ((3, 0),
          example_world\<lparr>stdout :=
            [AppliedLine ''V001'' ''create_users'', AppliedLine ''V002'' ''create_posts'',
             AppliedLine ''V003'' ''create_comments'']\<rparr>)"
    unfolding migrate_up_def migrate_up_with_def load_example_dir get_applied_migrations_def
    by (simp add: migrate_up_loop_example_world del: migrate_up_loop.simps)
  from apply_migration_fails_by_print_only [of example_migration example_world example_world
      None False "Some example_dir" 3 0] printable run
  show ?thesis by blast
qed

text \<open>
  C3 as stated fails: where standard output does not take the name of the migration, the
  \<^verbatim>\<open>print\<close> in the \<^verbatim>\<open>try\<close> body raises, the \<^verbatim>\<open>except\<close> branch runs, and
  \<open>apply_migration\<close> returns \<open>False\<close> with the status \<open>FAILED\<close>; \<open>migrate_up\<close> over the
  example directory then returns the failed count 1.
\<close>

theorem apply_migration_except_branch_counterexample:
  "apply_migration example_migration False unnameable_world =
     Inr ((False, example_migration\<lparr>status := FAILED, applied_at := Some 1700000000\<rparr>),
          unnameable_world\<lparr>stdout := [ApplyFailedLine ''V001'' ''surrogates not allowed'']\<rparr>) \<and>
   fst (migrate_up None False (Some example_dir) unnameable_world) =
     Inr ((0, 1),
          unnameable_world\<lparr>stdout := [ApplyFailedLine ''V001'' ''surrogates not allowed'']\<rparr>)"
proof
  show "apply_migration example_migration False unnameable_world =
     Inr ((False, example_migration\<lparr>status := FAILED, applied_at := Some 1700000000\<rparr>),
          unnameable_world\<lparr>stdout := [ApplyFailedLine ''V001'' ''surrogates not allowed'']\<rparr>)"
    by (simp add: apply_migration_run example_migration_def unnameable_world_def)
  show "fst (migrate_up None False (Some example_dir) unnameable_world) =
     Inr ((0, 1),
          unnameable_world\<lparr>stdout := [ApplyFailedLine ''V001'' ''surrogates not allowed'']\<rparr>)"
    unfolding migrate_up_def migrate_up_with_def load_example_dir get_applied_migrations_def
    by (simp add: migrate_up_loop_example_unnameable del: migrate_up_loop.simps)
qed

text \<open>
  C4. The docstring of \<^verbatim>\<open>apply_migration\<close> says of \<^verbatim>\<open>dry_run\<close>: if true, only validate
  without executing. The code of the dry run validates nothing: on a migration with an
  empty \<open>up_sql\<close> it prints its two lines and returns \<open>True\<close>, where the claim has it
  report a failure.
\<close>

theorem dry_run_apply_empty_up_sql_succeeds:
  "up_sql (example_migration\<lparr>up_sql := ''''\<rparr>) = '''' \<and>
   apply_migration (example_migration\<lparr>up_sql := ''''\<rparr>) True example_world =
     Inr ((True, example_migration\<lparr>up_sql := ''''\<rparr>),
          example_world\<lparr>stdout := [DryRunApply ''V001'' ''test_migration'', SqlLine '''']\<rparr>)"
  by (simp add: apply_migration_dry example_migration_def example_world_def)


section \<open>The claims about the planner\<close>

text \<open>
  C2. For every executor, every dictionary of applied migrations and every list of
  migrations, the loop of \<open>migrate_up\<close> counts at most one failure; once a failure has been
  counted on a list, nothing that follows in the list is handed to the executor: the counts
  and the executor's state are those of the list cut after the failing migration. The same
  holds when the executor raises. Over the three pending migrations of the example
  directory, with an executor that fails on the second, it returns \<open>(1, 1)\<close> and the
  executor has been called with the first two only.
\<close>

theorem migrate_up_stops_at_first_failure:
  "(migrate_up_loop exec applied t dry_run ms (0, 0) w = Inr ((s, f), w') \<longrightarrow> f \<le> 1) \<and>
   (migrate_up_loop exec applied t dry_run pre (0, 0) w = Inr ((s1, 1), w1) \<longrightarrow>
      migrate_up_loop exec applied t dry_run (pre @ rest) (0, 0) w = Inr ((s1, 1), w1)) \<and>
   (migrate_up_loop exec applied t dry_run pre (0, 0) w = Inl x \<longrightarrow>
      migrate_up_loop exec applied t dry_run (pre @ rest) (0, 0) w = Inl x) \<and>
   (fst (migrate_up_with exec applied t dry_run fs w) = Inr ((successful, failed), w2) \<longrightarrow>
      failed \<le> 1) \<and>
   fst (migrate_up_with (recording_executor [''V002'']) [] None False (Some example_dir) []) =
     Inr ((1, 1), [''V001'', ''V002''])"
proof (intro conjI impI)
  assume "migrate_up_loop exec applied t dry_run ms (0, 0) w = Inr ((s, f), w')"
  from migrate_up_loop_failed_le [OF this] show "f \<le> 1" by simp
next
  assume "migrate_up_loop exec applied t dry_run pre (0, 0) w = Inr ((s1, 1), w1)"
  then show "migrate_up_loop exec applied t dry_run (pre @ rest) (0, 0) w = Inr ((s1, 1), w1)"
    using migrate_up_loop_halt [of exec applied t dry_run pre 0 0 w s1 w1 rest] by simp
next
  assume "migrate_up_loop exec applied t dry_run pre (0, 0) w = Inl x"
  then show "migrate_up_loop exec applied t dry_run (pre @ rest) (0, 0) w = Inl x"
    by (rule migrate_up_loop_raise)
next
  assume up: "fst (migrate_up_with exec applied t dry_run fs w) = Inr ((successful, failed), w2)"
  obtain r fs' where load: "load_migrations fs = (r, fs')"
    by (cases "load_migrations fs")
  show "failed \<le> 1"
  proof (cases r)
    case (Inl e)
    with up load show ?thesis by (simp add: migrate_up_with_def)
  next
    case (Inr loaded)
    with up load
    have "migrate_up_loop exec applied t dry_run loaded (0, 0) w = Inr ((successful, failed), w2)"
      by (simp add: migrate_up_with_def)
    from migrate_up_loop_failed_le [OF this] show ?thesis by simp
  qed
next
  show "fst (migrate_up_with (recording_executor [''V002'']) [] None False (Some example_dir) []) =
     Inr ((1, 1), [''V001'', ''V002''])"
    unfolding migrate_up_with_def load_example_dir
    by (simp add: migrate_up_loop_example_recorded del: migrate_up_loop.simps)
qed

theorem migrate_up_stops_at_first_failure_witness:
  "migrate_up_loop (recording_executor [''V002'']) [] None False
        (take 2 example_loaded) (0, 0) [] = Inr ((1, 1), [''V001'', ''V002'']) \<and>
   migrate_up_loop (recording_executor [''V002'']) [] None False
        (take 2 example_loaded @ drop 2 example_loaded) (0, 0) [] =
     Inr ((1, 1), [''V001'', ''V002'']) \<and>
   fst (migrate_up_with (recording_executor [''V002'']) [] None False (Some example_dir) []) =
     Inr ((1, 1), [''V001'', ''V002''])"
proof -
  have pre: "migrate_up_loop (recording_executor [''V002'']) [] None False
        (take 2 example_loaded) (0, 0) [] = Inr ((1, 1), [''V001'', ''V002''])"
    by (simp add: example_loaded_def loaded_migration_def recording_executor_def beyond_target_def)
  note claim = migrate_up_stops_at_first_failure [of "recording_executor [''V002'']" "[]" None
      False example_loaded "[]" 1 1 "[''V001'', ''V002'']" "take 2 example_loaded" 1
      "[''V001'', ''V002'']" "drop 2 example_loaded"]
  from claim [THEN conjunct2, THEN conjunct1, THEN mp, OF pre]
  have whole: "migrate_up_loop (recording_executor [''V002'']) [] None False
        (take 2 example_loaded @ drop 2 example_loaded) (0, 0) [] =
     Inr ((1, 1), [''V001'', ''V002''])" .
  from claim [THEN conjunct2, THEN conjunct2, THEN conjunct2, THEN conjunct2]
  have dir: "fst (migrate_up_with (recording_executor [''V002'']) [] None False
      (Some example_dir) []) = Inr ((1, 1), [''V001'', ''V002''])" .
  from pre whole dir show ?thesis
    by (intro conjI)
qed

text \<open>
  C5. \<open>get_applied_migrations\<close> is the empty dictionary. So \<open>migrate_down\<close> returns
  \<open>(0, 0)\<close> and leaves the world as it was, for every number of steps, also in the world
  that a call of \<open>apply_migration\<close> leaves; and where the migrations load,
  \<open>get_migration_status\<close> reports no applied migration, no current version, and every
  loaded migration as pending.
\<close>

theorem applied_migrations_always_empty:
  "get_applied_migrations = [] \<and>
   migrate_down steps dry_run w = Inr ((0, 0), w) \<and>
   (apply_migration m False w = Inr (r, w') \<longrightarrow> migrate_down steps dry_run w' = Inr ((0, 0), w')) \<and>
   (fst (load_migrations fs) = Inr ms \<longrightarrow>
      fst (get_migration_status fs) =
        Inr \<lparr>total_migrations = length ms, applied_count = 0, pending_count = length ms,
             current_version = None,
             latest_version = (if ms \<noteq> [] then Some (version (last ms)) else None),
             pending_migrations = map version ms\<rparr>)"
proof -
  have down: "migrate_down k d v = Inr ((0, 0), v)" for k d v
    by (simp add: migrate_down_def migrate_down_with_def get_applied_migrations_def
        sorted_reverse_def slice_to_def)
  have stat: "fst (get_migration_status fs) =
        Inr \<lparr>total_migrations = length ms, applied_count = 0, pending_count = length ms,
             current_version = None,
             latest_version = (if ms \<noteq> [] then Some (version (last ms)) else None),
             pending_migrations = map version ms\<rparr>"
    if "fst (load_migrations fs) = Inr ms"
  proof -
    from that obtain fs' where "load_migrations fs = (Inr ms, fs')"
      by (metis prod.collapse)
    then show ?thesis
      by (simp add: get_migration_status_def get_migration_status_with_def
          get_applied_migrations_def)
  qed
  show ?thesis
    using down stat by (simp add: get_applied_migrations_def)
qed

theorem applied_migrations_always_empty_witness:
  "fst (load_migrations (Some example_dir)) = Inr example_loaded \<and>
   fst (get_migration_status (Some example_dir)) =
     Inr \<lparr>total_migrations = 3, applied_count = 0, pending_count = 3,
          current_version = None, latest_version = Some ''V003'',
          pending_migrations = [''V001'', ''V002'', ''V003'']\<rparr> \<and>
   apply_migration example_migration False example_world =
     Inr ((True, example_migration\<lparr>status := COMPLETED, applied_at := Some 1700000000\<rparr>),
          example_world\<lparr>stdout := [AppliedLine ''V001'' ''test_migration'']\<rparr>) \<and>
   migrate_down 1 False (example_world\<lparr>stdout := [AppliedLine ''V001'' ''test_migration'']\<rparr>) =
     Inr ((0, 0), example_world\<lparr>stdout := [AppliedLine ''V001'' ''test_migration'']\<rparr>)"
proof -
  have load: "fst (load_migrations (Some example_dir)) = Inr example_loaded"
    by (simp only: load_example_dir fst_conv)
  have vs: "map version example_loaded = [''V001'', ''V002'', ''V003'']"
    "length example_loaded = 3" "example_loaded \<noteq> []" "version (last example_loaded) = ''V003''"
    by (simp_all add: example_loaded_def loaded_migration_def)
  have ap: "apply_migration example_migration False example_world =
     Inr ((True, example_migration\<lparr>status := COMPLETED, applied_at := Some 1700000000\<rparr>),
          example_world\<lparr>stdout := [AppliedLine ''V001'' ''test_migration'']\<rparr>)"
    by (simp add: apply_migration_run example_migration_def example_world_def)
  note claim = applied_migrations_always_empty [of 1 False example_world example_migration
      "(True, example_migration\<lparr>status := COMPLETED, applied_at := Some 1700000000\<rparr>)"
      "example_world\<lparr>stdout := [AppliedLine ''V001'' ''test_migration'']\<rparr>"
      "Some example_dir" example_loaded]
  from claim ap have down: "migrate_down 1 False
      (example_world\<lparr>stdout := [AppliedLine ''V001'' ''test_migration'']\<rparr>) =
     Inr ((0, 0), example_world\<lparr>stdout := [AppliedLine ''V001'' ''test_migration'']\<rparr>)"
    by blast
  from claim load have "fst (get_migration_status (Some example_dir)) =
        Inr \<lparr>total_migrations = length example_loaded, applied_count = 0,
             pending_count = length example_loaded, current_version = None,
             latest_version =
               (if example_loaded \<noteq> [] then Some (version (last example_loaded)) else None),
             pending_migrations = map version example_loaded\<rparr>"
    by blast
  with vs have stat: "fst (get_migration_status (Some example_dir)) =
     Inr \<lparr>total_migrations = 3, applied_count = 0, pending_count = 3,
          current_version = None, latest_version = Some ''V003'',
          pending_migrations = [''V001'', ''V002'', ''V003'']\<rparr>"
    by simp
  from load stat ap down show ?thesis
    by (intro conjI)
qed

text \<open>
  C8. The docstring of \<^verbatim>\<open>migrate_up\<close> says of \<^verbatim>\<open>target_version\<close>: stop at this
  version, \<^verbatim>\<open>None\<close> meaning apply all. The test in the loop is
  \<^verbatim>\<open>target_version and ...\<close>, which is false for the empty string as it is for
  \<^verbatim>\<open>None\<close>. So with the empty string as target, \<open>migrate_up\<close> does not stop at the first
  migration whose version is greater, where the claim has it stop: over the example
  directory it applies all three, though \<open>V001\<close> is greater than the empty string. With the
  target \<open>V002\<close> it applies \<open>V001\<close> and \<open>V002\<close> and stops, as the claim says.
\<close>

theorem migrate_up_empty_target_applies_all:
  "''V001'' > '''' \<and>
   fst (load_migrations (Some example_dir)) = Inr example_loaded \<and>
   map version example_loaded = [''V001'', ''V002'', ''V003''] \<and>
   fst (migrate_up (Some '''') False (Some example_dir) example_world) =
     Inr ((3, 0),
          example_world\<lparr>stdout :=
            [AppliedLine ''V001'' ''create_users'', AppliedLine ''V002'' ''create_posts'',
             AppliedLine ''V003'' ''create_comments'']\<rparr>) \<and>
   fst (migrate_up (Some ''V002'') False (Some example_dir) example_world) =
     Inr ((2, 0),
          example_world\<lparr>stdout :=
            [AppliedLine ''V001'' ''create_users'', AppliedLine ''V002'' ''create_posts'']\<rparr>)"
proof (intro conjI)
  show "''V001'' > ''''" by simp
  show "fst (load_migrations (Some example_dir)) = Inr example_loaded"
    by (simp only: load_example_dir fst_conv)
  show "map version example_loaded = [''V001'', ''V002'', ''V003'']"
    by (simp add: example_loaded_def loaded_migration_def)
  show "fst (migrate_up (Some '''') False (Some example_dir) example_world) =
     Inr ((3, 0),
          example_world\<lparr>stdout :=
            [AppliedLine ''V001'' ''create_users'', AppliedLine ''V002'' ''create_posts'',
             AppliedLine ''V003'' ''create_comments'']\<rparr>)"
    unfolding migrate_up_def migrate_up_with_def load_example_dir get_applied_migrations_def
    by (simp add: migrate_up_loop_example_empty_target del: migrate_up_loop.simps)
  show "fst (migrate_up (Some ''V002'') False (Some example_dir) example_world) =
     Inr ((2, 0),
          example_world\<lparr>stdout :=
            [AppliedLine ''V001'' ''create_users'', AppliedLine ''V002'' ''create_posts'']\<rparr>)"
    unfolding migrate_up_def migrate_up_with_def load_example_dir get_applied_migrations_def
    by (simp add: migrate_up_loop_example_target del: migrate_up_loop.simps)
qed

text \<open>
  C9. The docstring of \<^verbatim>\<open>migrate_down\<close> says that it rolls back the last N migrations,
  and that of \<^verbatim>\<open>get_applied_migrations\<close> that it gets the applied migrations from the
  database; the body of the latter is a placeholder that returns the empty dictionary. So
  after two migrations have been applied, \<open>migrate_down\<close> with one step rolls back nothing
  and returns \<open>(0, 0)\<close>, where the claim has it roll back the highest version: \<open>migrate_up\<close>
  to the target \<open>V002\<close> applies \<open>V001\<close> and \<open>V002\<close>, and the \<open>migrate_down\<close> that follows
  prints no line and leaves the world as it was.
\<close>

theorem migrate_down_after_two_applied:
  "fst (migrate_up (Some ''V002'') False (Some example_dir) example_world) =
     Inr ((2, 0),
          example_world\<lparr>stdout :=
            [AppliedLine ''V001'' ''create_users'', AppliedLine ''V002'' ''create_posts'']\<rparr>) \<and>
   migrate_down 1 False
       (example_world\<lparr>stdout :=
          [AppliedLine ''V001'' ''create_users'', AppliedLine ''V002'' ''create_posts'']\<rparr>) =
     Inr ((0, 0),
          example_world\<lparr>stdout :=
            [AppliedLine ''V001'' ''create_users'', AppliedLine ''V002'' ''create_posts'']\<rparr>)"
proof
  show "fst (migrate_up (Some ''V002'') False (Some example_dir) example_world) =
     Inr ((2, 0),
          example_world\<lparr>stdout :=
            [AppliedLine ''V001'' ''create_users'', AppliedLine ''V002'' ''create_posts'']\<rparr>)"
    unfolding migrate_up_def migrate_up_with_def load_example_dir get_applied_migrations_def
    by (simp add: migrate_up_loop_example_target del: migrate_up_loop.simps)
  show "migrate_down 1 False
       (example_world\<lparr>stdout :=
          [AppliedLine ''V001'' ''create_users'', AppliedLine ''V002'' ''create_posts'']\<rparr>) =
     Inr ((0, 0),
          example_world\<lparr>stdout :=
            [AppliedLine ''V001'' ''create_users'', AppliedLine ''V002'' ''create_posts'']\<rparr>)"
    by (simp add: migrate_down_def migrate_down_with_def get_applied_migrations_def
        sorted_reverse_def slice_to_def)
qed

section \<open>The claims about the registry\<close>

lemma load_loop_map_of:
  "map_of d1 = map_of d2 \<Longrightarrow> load_loop d1 names acc = load_loop d2 names acc"
  by (induction names arbitrary: acc) (simp_all split: option.splits)

lemma load_loop_all:
  assumes "load_loop d names acc = Inr ms"
    and "\<forall>m \<in> set acc. P m"
    and "\<And>filename content m. parse_migration filename content = Some m \<Longrightarrow> P m"
  shows "\<forall>m \<in> set ms. P m"
  using assms(1,2)
proof (induction names arbitrary: acc)
  case Nil
  then show ?case by simp
next
  case (Cons filename names)
  show ?case
  proof (cases "endswith filename ''.sql''")
    case False
    with Cons show ?thesis by simp
  next
    case True
    with Cons.prems(1) obtain content where c: "map_of d filename = Some (Some content)"
      by (auto split: option.splits)
    show ?thesis
    proof (cases "parse_migration filename content")
      case None
      with True c Cons show ?thesis by simp
    next
      case (Some m)
      with assms(3) have "P m" by blast
      with Cons.prems(2) have "\<forall>x \<in> set (acc @ [m]). P x" by simp
      moreover from True c Some Cons.prems(1) have "load_loop d names (acc @ [m]) = Inr ms"
        by simp
      ultimately show ?thesis by (rule Cons.IH [rotated])
    qed
  qed
qed

lemma load_migrations_all:
  assumes "fst (load_migrations fs) = Inr ms"
    and "\<And>filename content m. parse_migration filename content = Some m \<Longrightarrow> P m"
  shows "\<forall>m \<in> set ms. P m"
proof (cases fs)
  case None
  with assms(1) show ?thesis by simp
next
  case (Some d)
  with assms(1) obtain loaded where l: "load_loop d (sort (map fst d)) [] = Inr loaded"
    and ms: "ms = sort_key version loaded"
    by (auto split: sum.splits)
  from load_loop_all [OF l _ assms(2)] have "\<forall>m \<in> set loaded. P m" by simp
  with ms show ?thesis by simp
qed

lemma load_migrations_sorted:
  "fst (load_migrations fs) = Inr ms \<Longrightarrow> sorted (map version ms)"
  by (cases fs) (auto split: sum.splits)

lemma load_migrations_listing:
  assumes "mset d1 = mset d2" and "distinct (map fst d1)"
  shows "fst (load_migrations (Some d1)) = fst (load_migrations (Some d2))"
proof -
  from assms(1) have names: "mset (map fst d1) = mset (map fst d2)"
    by (metis mset_map)
  from mset_eq_imp_distinct_iff [OF names] assms(2) have "distinct (map fst d2)"
    by (rule iffD1)
  moreover from assms(1) have "set d1 = set d2"
    by (rule mset_eq_setD)
  ultimately have look: "map_of d1 = map_of d2"
    using assms(2) by (simp add: map_of_inject_set)
  have "mset (sort (map fst d2)) = mset (map fst d1)"
    by (simp only: mset_sort names)
  then have "sort (map fst d1) = sort (map fst d2)"
    by (rule properties_for_sort) (rule sorted_sort)
  with load_loop_map_of [OF look] show ?thesis
    by (simp split: sum.splits)
qed

text \<open>
  C7. Whatever directory \<open>load_migrations\<close> reads, the migrations it returns are sorted
  in ascending order of their versions, compared as strings. The result does not depend
  on the order in which the directory lists its files: two listings of the same files give
  the same result. A directory that lists V003, V001, V002 loads as V001, V002, V003.
\<close>

theorem load_migrations_sorted_by_version:
  "(fst (load_migrations fs) = Inr ms \<longrightarrow> sorted (map version ms)) \<and>
   (mset d1 = mset d2 \<and> distinct (map fst d1) \<longrightarrow>
      fst (load_migrations (Some d1)) = fst (load_migrations (Some d2))) \<and>
   map (\<lambda>entry. take 4 (fst entry)) example_dir = [''V003'', ''V001'', ''V002''] \<and>
   map_sum id (map version) (fst (load_migrations (Some example_dir))) =
     Inr [''V001'', ''V002'', ''V003'']"
proof (intro conjI impI)
  assume "fst (load_migrations fs) = Inr ms"
  then show "sorted (map version ms)" by (rule load_migrations_sorted)
next
  assume "mset d1 = mset d2 \<and> distinct (map fst d1)"
  then show "fst (load_migrations (Some d1)) = fst (load_migrations (Some d2))"
    by (elim conjE) (rule load_migrations_listing)
next
  show "map (\<lambda>entry. take 4 (fst entry)) example_dir = [''V003'', ''V001'', ''V002'']"
    by (simp add: example_dir_def)
next
  have "map version example_loaded = [''V001'', ''V002'', ''V003'']"
    by (simp add: example_loaded_def loaded_migration_def)
  then show "map_sum id (map version) (fst (load_migrations (Some example_dir))) =
     Inr [''V001'', ''V002'', ''V003'']"
    by (simp only: load_example_dir fst_conv map_sum.simps)
qed

theorem load_migrations_sorted_by_version_witness:
  "fst (load_migrations (Some example_dir)) = Inr example_loaded \<and>
   sorted (map version example_loaded) \<and>
   mset example_dir = mset (rev example_dir) \<and> distinct (map fst example_dir) \<and>
   fst (load_migrations (Some (rev example_dir))) = Inr example_loaded"
proof -
  have load: "fst (load_migrations (Some example_dir)) = Inr example_loaded"
    by (simp only: load_example_dir fst_conv)
  have perm: "mset example_dir = mset (rev example_dir)"
    by simp
  have dist: "distinct (map fst example_dir)"
    by (simp add: example_dir_def)
  note claim = load_migrations_sorted_by_version [of "Some example_dir" example_loaded
      example_dir "rev example_dir"]
  from claim [THEN conjunct1, THEN mp, OF load]
  have srt: "sorted (map version example_loaded)" .
  from claim [THEN conjunct2, THEN conjunct1, THEN mp, OF conjI, OF perm dist]
  have "fst (load_migrations (Some example_dir)) = fst (load_migrations (Some (rev example_dir)))" .
  with load have other: "fst (load_migrations (Some (rev example_dir))) = Inr example_loaded"
    by (simp only:)
  from load srt perm dist other show ?thesis
    by (intro conjI)
qed

lemma length_hex32: "length (hex32 x) = 8"
  by (simp add: hex32_def)

lemma set_hex32: "set (hex32 x) \<subseteq> set ''0123456789abcdef''"
proof -
  have "hex_digit n \<in> set ''0123456789abcdef''" for n
    unfolding hex_digit_def by (rule nth_mem) simp
  then show ?thesis by (auto simp: hex32_def)
qed

lemma length_hexdigest: "length (hexdigest h) = 64"
  by (cases h rule: hexdigest.cases) (simp add: length_hex32)

lemma set_hexdigest: "set (hexdigest h) \<subseteq> set ''0123456789abcdef''"
proof (cases h rule: hexdigest.cases)
  case (1 a b c d e f g h')
  show ?thesis
    unfolding 1 hexdigest.simps set_append
    using set_hex32 [of a] set_hex32 [of b] set_hex32 [of c] set_hex32 [of d]
      set_hex32 [of e] set_hex32 [of f] set_hex32 [of g] set_hex32 [of h']
    by blast
qed

lemma parse_migration_checksum:
  "parse_migration filename content = Some m \<Longrightarrow> checksum m = calculate_checksum (up_sql m)"
  by (auto simp: parse_migration_def Let_def split: if_splits)

lemma load_example_dir_no_down:
  "load_migrations (Some example_dir_no_down) =
     (Inr [(loaded_migration ''V001'' ''create_users'' ''users'')\<lparr>down_sql := ''''\<rparr>],
      Some example_dir_no_down)"
proof -
  have parse: "parse_migration ''V001__create_users.sql''
      ''-- UP\<newline>CREATE TABLE users(id INT);\<newline>'' =
      Some ((loaded_migration ''V001'' ''create_users'' ''users'')\<lparr>down_sql := ''''\<rparr>)"
    by (simp add: parse_migration_def loaded_migration_def strip_def isspace_def Let_def)
  have ends: "endswith ''V001__create_users.sql'' ''.sql''"
    by (simp add: endswith_def suffix_to_prefix)
  show ?thesis
    by (simp add: example_dir_no_down_def parse ends)
qed

text \<open>The test vector \<open>abc\<close> of FIPS 180-4 for SHA-256.\<close>

lemma calculate_checksum_abc:
  "calculate_checksum ''abc'' =
     ''ba7816bf8f01cfea414140de5dae2223b00361a396177a9cb410ff61f20015ad''"
  by code_simp

text \<open>
  C6. \<open>calculate_checksum\<close> is a function of the text alone, defined on every text: it is
  the SHA-256 digest of the UTF-8 encoding of the text, written as 64 hexadecimal digits.
  The checksum of every loaded migration is that of its \<open>up_sql\<close>; so two loaded
  migrations with the same \<open>up_sql\<close> have the same checksum, whatever their \<open>down_sql\<close>.
  On the text \<open>abc\<close> the function gives the digest that FIPS 180-4 lists for it.
\<close>

theorem checksum_is_sha256_of_up_sql:
  "calculate_checksum s = hexdigest (sha256 (encode_utf8 s)) \<and>
   calculate_checksum ''abc'' =
     ''ba7816bf8f01cfea414140de5dae2223b00361a396177a9cb410ff61f20015ad'' \<and>
   length (calculate_checksum s) = 64 \<and>
   set (calculate_checksum s) \<subseteq> set ''0123456789abcdef'' \<and>
   (fst (load_migrations fs) = Inr ms \<longrightarrow>
      (\<forall>m \<in> set ms. checksum m = hexdigest (sha256 (encode_utf8 (up_sql m))))) \<and>
   (fst (load_migrations fs1) = Inr ms1 \<and> fst (load_migrations fs2) = Inr ms2 \<and>
    m1 \<in> set ms1 \<and> m2 \<in> set ms2 \<and> up_sql m1 = up_sql m2 \<longrightarrow>
      checksum m1 = checksum m2)"
proof -
  have loaded: "\<forall>m \<in> set l. checksum m = calculate_checksum (up_sql m)"
    if "fst (load_migrations d) = Inr l" for d l
    using that parse_migration_checksum by (rule load_migrations_all)
  show ?thesis
  proof (intro conjI impI)
    show "calculate_checksum s = hexdigest (sha256 (encode_utf8 s))"
      by (simp add: calculate_checksum_def)
    show "calculate_checksum ''abc'' =
        ''ba7816bf8f01cfea414140de5dae2223b00361a396177a9cb410ff61f20015ad''"
      by (rule calculate_checksum_abc)
    show "length (calculate_checksum s) = 64"
      by (simp add: calculate_checksum_def length_hexdigest)
    show "set (calculate_checksum s) \<subseteq> set ''0123456789abcdef''"
      unfolding calculate_checksum_def by (rule set_hexdigest)
  next
    assume "fst (load_migrations fs) = Inr ms"
    from loaded [OF this]
    show "\<forall>m \<in> set ms. checksum m = hexdigest (sha256 (encode_utf8 (up_sql m)))"
      by (simp add: calculate_checksum_def)
  next
    assume a: "fst (load_migrations fs1) = Inr ms1 \<and> fst (load_migrations fs2) = Inr ms2 \<and>
      m1 \<in> set ms1 \<and> m2 \<in> set ms2 \<and> up_sql m1 = up_sql m2"
    with loaded [of fs1 ms1] loaded [of fs2 ms2]
    show "checksum m1 = checksum m2" by simp
  qed
qed

theorem checksum_is_sha256_of_up_sql_witness:
  "fst (load_migrations (Some example_dir)) = Inr example_loaded \<and>
   fst (load_migrations (Some example_dir_no_down)) =
     Inr [(loaded_migration ''V001'' ''create_users'' ''users'')\<lparr>down_sql := ''''\<rparr>] \<and>
   loaded_migration ''V001'' ''create_users'' ''users'' \<in> set example_loaded \<and>
   up_sql (loaded_migration ''V001'' ''create_users'' ''users'') =
     up_sql ((loaded_migration ''V001'' ''create_users'' ''users'')\<lparr>down_sql := ''''\<rparr>) \<and>
   down_sql (loaded_migration ''V001'' ''create_users'' ''users'') \<noteq>
     down_sql ((loaded_migration ''V001'' ''create_users'' ''users'')\<lparr>down_sql := ''''\<rparr>) \<and>
   checksum (loaded_migration ''V001'' ''create_users'' ''users'') =
     checksum ((loaded_migration ''V001'' ''create_users'' ''users'')\<lparr>down_sql := ''''\<rparr>) \<and>
   checksum (loaded_migration ''V001'' ''create_users'' ''users'') =
     hexdigest (sha256 (encode_utf8 (up_sql (loaded_migration ''V001'' ''create_users'' ''users''))))"
proof -
  let ?m1 = "loaded_migration ''V001'' ''create_users'' ''users''"
  let ?m2 = "(loaded_migration ''V001'' ''create_users'' ''users'')\<lparr>down_sql := ''''\<rparr>"
  have l1: "fst (load_migrations (Some example_dir)) = Inr example_loaded"
    by (simp only: load_example_dir fst_conv)
  have l2: "fst (load_migrations (Some example_dir_no_down)) = Inr [?m2]"
    by (simp only: load_example_dir_no_down fst_conv)
  have in1: "?m1 \<in> set example_loaded"
    by (simp add: example_loaded_def)
  have in2: "?m2 \<in> set [?m2]"
    by simp
  have up: "up_sql ?m1 = up_sql ?m2"
    by simp
  have down: "down_sql ?m1 \<noteq> down_sql ?m2"
    by (simp add: loaded_migration_def)
  note claim = checksum_is_sha256_of_up_sql [of "''abc''" "Some example_dir" example_loaded
      "Some example_dir" example_loaded "Some example_dir_no_down" "[?m2]" ?m1 ?m2]
  from claim have "\<forall>m \<in> set example_loaded.
      checksum m = hexdigest (sha256 (encode_utf8 (up_sql m)))"
    using l1 by blast
  from this in1 have all: "checksum ?m1 = hexdigest (sha256 (encode_utf8 (up_sql ?m1)))"
    by (rule bspec)
  from claim have same: "checksum ?m1 = checksum ?m2"
    using l1 l2 in1 in2 up by blast
  from l1 l2 in1 up down same all show ?thesis
    by (intro conjI)
qed

end
